theory Spec2Isabelle
  imports Complex_Main "HOL-Library.AList"
begin

section \<open>The strategy ledger of pynecore: order lifecycle and position accounting\<close>

text \<open>
  The development embeds \<^verbatim>\<open>src/pynecore/lib/strategy/__init__.py\<close>.
  Python floats are modelled as exact reals: every statement below is about the
  arithmetic the code writes down, not about binary rounding.
\<close>

subsection \<open>Exceptions and Python's numeric conversions\<close>

datatype error =
    ZeroDivisionError
  | InvalidOperation
  | AssertionError
  | TypeError
  | ValueError

text \<open>A float argument that may also be \<^verbatim>\<open>None\<close> or the \<^verbatim>\<open>NA\<close> sentinel.\<close>

datatype pyfloat = PyNone | NA | Num real

text \<open>\<^verbatim>\<open>int(x)\<close> on a float: truncation toward zero.\<close>

definition py_int :: "real \<Rightarrow> int" where
  "py_int x = (if 0 \<le> x then \<lfloor>x\<rfloor> else \<lceil>x\<rceil>)"

text \<open>Rounding to the nearest integer, ties to the even neighbour: Python's \<^verbatim>\<open>round\<close>
  and the default rounding of the \<^verbatim>\<open>decimal\<close> context (\<^verbatim>\<open>ROUND_HALF_EVEN\<close>).\<close>

definition round_half_even :: "real \<Rightarrow> int" where
  "round_half_even x =
     (let f = \<lfloor>x\<rfloor>; d = x - of_int f
      in if d < 1 / 2 then f
         else if 1 / 2 < d then f + 1
         else if even f then f else f + 1)"

text \<open>\<^verbatim>\<open>round(x, n)\<close>: \<open>n\<close> decimals, ties to even.\<close>

definition py_round :: "real \<Rightarrow> nat \<Rightarrow> real" where
  "py_round x n = of_int (round_half_even (x * 10 ^ n)) / 10 ^ n"

subsection \<open>Numeric utilities\<close>

text \<open>
  \<^verbatim>\<open>_size_round(qty)\<close>, with \<^verbatim>\<open>syminfo._size_round_factor\<close> as the parameter \<open>rfactor\<close>.
  The quantity is floored to one decimal of the lot step with \<^verbatim>\<open>ROUND_FLOOR\<close>; the
  second \<^verbatim>\<open>to_integral_value()\<close> names no rounding and so uses the context's, which is
  half-even. With \<open>rfactor = 0\<close> the final quotient is \<open>0 / 0\<close>, which \<^verbatim>\<open>decimal\<close>
  reports as \<^verbatim>\<open>InvalidOperation\<close>.
\<close>

definition size_round :: "real \<Rightarrow> real \<Rightarrow> error + real" where
  "size_round rfactor qty =
     (let sign = (if 0 < qty then 1 else - 1) :: real;
          qrf = \<bar>qty\<bar> * rfactor * 10;
          qrf = of_int \<lfloor>qrf\<rfloor> * (1 / 10)
      in if rfactor = 0 then Inl InvalidOperation
         else Inr (sign * (of_int (round_half_even qrf) / rfactor)))"

text \<open>The formula of the specification for size rounding: the same steps, with
  the second one a truncation toward zero.\<close>

definition size_round_spec :: "real \<Rightarrow> real \<Rightarrow> real" where
  "size_round_spec rf qty =
     sgn qty * of_int (py_int (of_int \<lfloor>\<bar>qty\<bar> * rf * 10\<rfloor> * (1 / 10))) / rf"

text \<open>
  \<^verbatim>\<open>_price_round(price, direction)\<close>, with \<^verbatim>\<open>syminfo.mintick\<close> as a parameter.
  \<^verbatim>\<open>None / mintick\<close> is a \<^verbatim>\<open>TypeError\<close>; a zero tick is a \<^verbatim>\<open>ZeroDivisionError\<close>.
\<close>

definition price_round :: "real \<Rightarrow> pyfloat \<Rightarrow> real \<Rightarrow> error + pyfloat" where
  "price_round mintick price direction =
     (case price of
        NA \<Rightarrow> Inr NA
      | PyNone \<Rightarrow> Inl TypeError
      | Num p \<Rightarrow>
          if mintick = 0 then Inl ZeroDivisionError
          else
            let ppmt = py_round (p / mintick) 5;
                ppmt_int = py_int ppmt
            in if direction < 0 then Inr (Num (of_int ppmt_int * mintick))
               else if ppmt = of_int ppmt_int then Inr (Num (of_int ppmt_int * mintick))
               else Inr (Num (of_int (ppmt_int + 1) * mintick)))"

text \<open>\<^verbatim>\<open>_is_none(value)\<close>\<close>

definition is_none :: "pyfloat \<Rightarrow> bool" where
  "is_none v = (v = NA \<or> v = PyNone)"

text \<open>\<^verbatim>\<open>math.isclose(a, 0.0, abs_tol=1 / syminfo._size_round_factor)\<close> with the default
  relative tolerance \<open>1e-09\<close>. The tolerance is computed first (a zero factor is a
  \<^verbatim>\<open>ZeroDivisionError\<close>), and \<^verbatim>\<open>isclose\<close> rejects a negative one with \<^verbatim>\<open>ValueError\<close>.\<close>

definition isclose_zero :: "real \<Rightarrow> real \<Rightarrow> error + bool" where
  "isclose_zero rfactor a =
     (if rfactor = 0 then Inl ZeroDivisionError
      else if 1 / rfactor < 0 then Inl ValueError
      else Inr (\<bar>a\<bar> \<le> max (\<bar>a\<bar> / 10 ^ 9) (1 / rfactor)))"

text \<open>The sign stored by the constructors of \<^verbatim>\<open>Order\<close> and \<^verbatim>\<open>Trade\<close> and recomputed for the
  position: \<^verbatim>\<open>0.0 if size == 0.0 else 1.0 if size > 0.0 else -1.0\<close>.\<close>

definition sign_of :: "real \<Rightarrow> real" where
  "sign_of sz = (if sz = 0 then 0 else if 0 < sz then 1 else - 1)"

text \<open>Sequencing of computations that may raise.\<close>

definition bind_err :: "error + 'a \<Rightarrow> ('a \<Rightarrow> error + 'b) \<Rightarrow> error + 'b" where
  "bind_err m f = (case m of Inl e \<Rightarrow> Inl e | Inr x \<Rightarrow> f x)"

text \<open>
  Modelled from the spec: the class of the \<^verbatim>\<open>NA\<close> sentinel (\<^verbatim>\<open>pynecore.types.na\<close>) is not
  among the sources. The specification asks that "NA implies not set" hold wherever an
  optional price is checked, so an ordering comparison with \<^verbatim>\<open>NA\<close> on either side is
  taken to be false. Comparing \<^verbatim>\<open>None\<close> with a float is Python's \<^verbatim>\<open>TypeError\<close>.
\<close>

definition py_le :: "pyfloat \<Rightarrow> real \<Rightarrow> error + bool" where
  "py_le v y = (case v of PyNone \<Rightarrow> Inl TypeError | NA \<Rightarrow> Inr False | Num x \<Rightarrow> Inr (x \<le> y))"

definition py_ge :: "pyfloat \<Rightarrow> real \<Rightarrow> error + bool" where
  "py_ge v y = (case v of PyNone \<Rightarrow> Inl TypeError | NA \<Rightarrow> Inr False | Num x \<Rightarrow> Inr (y \<le> x))"

definition py_gt :: "pyfloat \<Rightarrow> real \<Rightarrow> error + bool" where
  "py_gt v y = (case v of PyNone \<Rightarrow> Inl TypeError | NA \<Rightarrow> Inr False | Num x \<Rightarrow> Inr (y < x))"

definition py_lt :: "pyfloat \<Rightarrow> real \<Rightarrow> error + bool" where
  "py_lt v y = (case v of PyNone \<Rightarrow> Inl TypeError | NA \<Rightarrow> Inr False | Num x \<Rightarrow> Inr (x < y))"

text \<open>\<^verbatim>\<open>max(a, b)\<close> and \<^verbatim>\<open>min(a, b)\<close> with a float \<open>a\<close>: Python returns \<open>a\<close> unless
  \<^verbatim>\<open>b > a\<close> (respectively \<^verbatim>\<open>b < a\<close>) holds.\<close>

definition py_max :: "real \<Rightarrow> pyfloat \<Rightarrow> error + real" where
  "py_max a b = bind_err (py_gt b a) (\<lambda>g. Inr (if g then (case b of Num x \<Rightarrow> x | _ \<Rightarrow> a) else a))"

definition py_min :: "real \<Rightarrow> pyfloat \<Rightarrow> error + real" where
  "py_min a b = bind_err (py_lt b a) (\<lambda>g. Inr (if g then (case b of Num x \<Rightarrow> x | _ \<Rightarrow> a) else a))"

subsection \<open>Data model\<close>

datatype order_type = order_type_entry | order_type_close

datatype commission = percent | cash_per_order | cash_per_contract | commission_unknown

datatype qty_type = fixed | cash | percent_of_equity | qty_type_unknown

datatype direction = long | short

text \<open>
  What the ledger reads from its collaborators: the bar (\<^verbatim>\<open>lib.open\<close>, ...), the symbol
  (\<^verbatim>\<open>syminfo\<close>), the script's configuration (\<^verbatim>\<open>lib._script\<close>) and
  \<^verbatim>\<open>lib.math.round_to_mintick\<close>, which is not among the sources and is a parameter.
\<close>

record env =
  lib_open :: real
  lib_high :: real
  lib_low :: real
  lib_close :: real
  bar_index :: int
  lib_time :: int
  lib_semaphore :: bool
  round_to_mintick :: "real \<Rightarrow> real"
  mintick :: real
  pointvalue :: real
  size_round_factor :: real
  initial_capital :: real
  commission_type :: commission
  commission_value :: real
  slippage :: real
  pyramiding :: int
  margin_long :: real
  margin_short :: real
  default_qty_type :: qty_type
  default_qty_value :: real

text \<open>Class \<^verbatim>\<open>Order\<close>. The texts (\<^verbatim>\<open>comment\<close>, \<^verbatim>\<open>oca_name\<close>, ...) are only ever tested
  for truth, so an absent text (\<^verbatim>\<open>None\<close> or \<^verbatim>\<open>NA\<close>) is \<open>None\<close>.\<close>

record Order =
  o_order_id :: "string option"
  o_size :: real
  o_sign :: real
  o_order_type :: order_type
  o_limit :: pyfloat
  o_stop :: pyfloat
  o_exit_id :: "string option"
  o_oca_name :: "string option"
  o_oca_type :: "string option"
  o_comment :: "string option"
  o_alert_message :: "string option"
  o_trail_price :: pyfloat
  o_trail_offset :: real
  o_trail_triggered :: bool
  o_profit_ticks :: "real option"
  o_loss_ticks :: "real option"
  o_trail_points_ticks :: "real option"
  o_is_market_order :: bool

text \<open>\<^verbatim>\<open>Order.__init__\<close>; \<^verbatim>\<open>trail_offset or 0\<close> turns an absent offset into 0.\<close>

definition Order_init ::
  "string option \<Rightarrow> real \<Rightarrow> order_type \<Rightarrow> string option \<Rightarrow> pyfloat \<Rightarrow> pyfloat \<Rightarrow>
   string option \<Rightarrow> string option \<Rightarrow> string option \<Rightarrow> string option \<Rightarrow>
   pyfloat \<Rightarrow> pyfloat \<Rightarrow> real option \<Rightarrow> real option \<Rightarrow> real option \<Rightarrow> Order" where
  "Order_init order_id sz order_type exit_id limit stop oca_name oca_type comment
     alert_message trail_price trail_offset profit_ticks loss_ticks trail_points_ticks =
     \<lparr> o_order_id = order_id, o_size = sz, o_sign = sign_of sz,
       o_order_type = order_type, o_limit = limit, o_stop = stop, o_exit_id = exit_id,
       o_oca_name = oca_name, o_oca_type = oca_type, o_comment = comment,
       o_alert_message = alert_message, o_trail_price = trail_price,
       o_trail_offset = (case trail_offset of Num x \<Rightarrow> x | _ \<Rightarrow> 0),
       o_trail_triggered = False,
       o_profit_ticks = profit_ticks, o_loss_ticks = loss_ticks,
       o_trail_points_ticks = trail_points_ticks,
       o_is_market_order = (limit = PyNone \<and> stop = PyNone \<and> trail_price = PyNone) \<rparr>"

text \<open>Class \<^verbatim>\<open>Trade\<close>; \<open>t_exit_equity = None\<close> is the \<^verbatim>\<open>NA\<close> of a trade still open.\<close>

record Trade =
  t_size :: real
  t_sign :: real
  t_entry_id :: string
  t_entry_bar_index :: int
  t_entry_time :: int
  t_entry_price :: real
  t_entry_comment :: "string option"
  t_entry_equity :: real
  t_exit_id :: string
  t_exit_bar_index :: int
  t_exit_time :: int
  t_exit_price :: real
  t_exit_comment :: string
  t_exit_equity :: "real option"
  t_commission :: real
  t_max_drawdown :: real
  t_max_drawdown_percent :: real
  t_max_runup :: real
  t_max_runup_percent :: real
  t_profit :: real
  t_profit_percent :: real
  t_cum_profit :: real
  t_cum_profit_percent :: real
  t_cum_max_drawdown :: real
  t_cum_max_runup :: real

definition Trade_init ::
  "real \<Rightarrow> string \<Rightarrow> int \<Rightarrow> int \<Rightarrow> real \<Rightarrow> real \<Rightarrow> string option \<Rightarrow> real \<Rightarrow> Trade" where
  "Trade_init sz entry_id entry_bar_index entry_time entry_price commission
     entry_comment entry_equity =
     \<lparr> t_size = sz, t_sign = sign_of sz, t_entry_id = entry_id,
       t_entry_bar_index = entry_bar_index, t_entry_time = entry_time,
       t_entry_price = entry_price, t_entry_comment = entry_comment,
       t_entry_equity = entry_equity,
       t_exit_id = [], t_exit_bar_index = - 1, t_exit_time = - 1, t_exit_price = 0,
       t_exit_comment = [], t_exit_equity = None,
       t_commission = commission,
       t_max_drawdown = 0, t_max_drawdown_percent = 0, t_max_runup = 0,
       t_max_runup_percent = 0, t_profit = 0, t_profit_percent = 0,
       t_cum_profit = 0, t_cum_profit_percent = 0, t_cum_max_drawdown = 0,
       t_cum_max_runup = 0 \<rparr>"

text \<open>
  Class \<^verbatim>\<open>Position\<close>. Orders and closed trades are objects that several containers
  share and that the code mutates in place, so they live in stores and the containers
  hold references: \<open>order_store\<close> with the next free reference \<open>next_order\<close>,
  \<open>trade_store\<close> with \<open>next_trade\<close>. An open trade is referenced by
  \<^verbatim>\<open>open_trades\<close> alone, so that list holds the trades themselves. The dictionaries
  keep insertion order, as Python's do. \<open>max_equity = None\<close> is \<open>-inf\<close> and
  \<open>min_equity = None\<close> is \<open>+inf\<close>. The fields \<^verbatim>\<open>size\<close>, \<^verbatim>\<open>o\<close>, \<^verbatim>\<open>h\<close>, \<^verbatim>\<open>l\<close>,
  \<^verbatim>\<open>c\<close> are \<open>position_size\<close>, \<open>bar_o\<close>, \<open>bar_h\<close>, \<open>bar_l\<close>, \<open>bar_c\<close>. Of the risk
  settings, those this module reads are kept.
\<close>

record Position =
  netprofit :: real
  openprofit :: real
  grossprofit :: real
  grossloss :: real
  entry_orders :: "(string \<times> nat) list"
  exit_orders :: "(string \<times> nat) list"
  open_trades :: "Trade list"
  closed_trades :: "nat list"
  new_closed_trades :: "nat list"
  closed_trades_count :: int
  wintrades :: int
  eventrades :: int
  losstrades :: int
  position_size :: real
  sign :: real
  avg_price :: real
  prev_c :: real
  cum_profit :: real
  risk_allowed_direction :: "direction option"
  risk_max_intraday_filled_orders :: "int option"
  risk_max_position_size :: "real option"
  risk_intraday_filled_orders :: int
  risk_halt_trading :: bool
  entry_equity :: real
  max_equity :: "real option"
  min_equity :: "real option"
  drawdown_summ :: real
  runup_summ :: real
  max_drawdown :: real
  max_runup :: real
  entry_summ :: real
  open_commission :: real
  bar_o :: real
  bar_h :: real
  bar_l :: real
  bar_c :: real
  order_store :: "nat \<Rightarrow> Order"
  next_order :: nat
  trade_store :: "nat \<Rightarrow> Trade"
  next_trade :: nat

subsection \<open>The position ledger: \<^verbatim>\<open>Position._fill_order\<close>\<close>

text \<open>\<^verbatim>\<open>Position.__init__\<close> with the class attributes' defaults. No object exists yet: the
  stores are filled with a blank order and a blank trade.\<close>

definition blank_order :: Order where
  "blank_order = Order_init None 0 order_type_entry None PyNone PyNone None None None None
     PyNone PyNone None None None"

definition blank_trade :: Trade where
  "blank_trade = Trade_init 0 [] 0 0 0 0 None 0"

definition new_position :: Position where
  "new_position =
     \<lparr> netprofit = 0, openprofit = 0, grossprofit = 0, grossloss = 0,
       entry_orders = [], exit_orders = [], open_trades = [], closed_trades = [],
       new_closed_trades = [], closed_trades_count = 0,
       wintrades = 0, eventrades = 0, losstrades = 0,
       position_size = 0, sign = 0, avg_price = 0, prev_c = 0, cum_profit = 0,
       risk_allowed_direction = None, risk_max_intraday_filled_orders = None,
       risk_max_position_size = None, risk_intraday_filled_orders = 0,
       risk_halt_trading = False,
       entry_equity = 0, max_equity = None, min_equity = None,
       drawdown_summ = 0, runup_summ = 0, max_drawdown = 0, max_runup = 0,
       entry_summ = 0, open_commission = 0,
       bar_o = 0, bar_h = 0, bar_l = 0, bar_c = 0,
       order_store = (\<lambda>_. blank_order), next_order = 0,
       trade_store = (\<lambda>_. blank_trade), next_trade = 0 \<rparr>"

text \<open>The property \<^verbatim>\<open>Position.equity\<close>.\<close>

definition equity :: "env \<Rightarrow> Position \<Rightarrow> real" where
  "equity e self = initial_capital e + netprofit self + openprofit self"

text \<open>\<^verbatim>\<open>deque(maxlen=9000).append\<close>: the oldest element leaves a full ring.\<close>

definition deque_append :: "nat list \<Rightarrow> nat \<Rightarrow> nat list" where
  "deque_append d x = (let d' = d @ [x] in drop (length d' - 9000) d')"

text \<open>Creating an object: it takes the next free reference of its store.\<close>

definition alloc_order :: "Order \<Rightarrow> Position \<Rightarrow> nat \<times> Position" where
  "alloc_order order self =
     (next_order self,
      self\<lparr>order_store := (order_store self)(next_order self := order),
           next_order := next_order self + 1\<rparr>)"

text \<open>
  The variables of the walk over \<^verbatim>\<open>self.open_trades\<close> in the closing branch:
  \<^verbatim>\<open>self\<close>, \<^verbatim>\<open>delete\<close>, the local list \<^verbatim>\<open>open_trades\<close>, \<^verbatim>\<open>new_closed_trades\<close>,
  \<^verbatim>\<open>closed_trade_size\<close>, and within one iteration \<^verbatim>\<open>trade\<close>, \<^verbatim>\<open>closed_trade\<close>, \<^verbatim>\<open>size\<close> and
  \<^verbatim>\<open>pnl\<close>. The copy \<^verbatim>\<open>closed_trade\<close> is held as a value during its iteration and
  written to the trade store, under the reference the containers received, when the
  iteration ends; nothing reads it through the containers in between.
\<close>

record frame =
  f_self :: Position
  f_delete :: bool
  f_open_trades :: "Trade list"
  f_new_closed_trades :: "nat list"
  f_closed_trade_size :: real
  f_trade :: Trade
  f_closed_trade :: Trade
  f_size :: real
  f_pnl :: real

text \<open>Lines 353-374: the size taken from this trade, its profit, the copy, and for a
  partial close the split of commission, drawdown and run-up between the retained trade
  and the copy. The ratio divides by the trade's size.\<close>

definition split_trade :: "env \<Rightarrow> Order \<Rightarrow> real \<Rightarrow> Trade \<Rightarrow> frame \<Rightarrow> error + frame" where
  "split_trade e order price trade f =
     (let sz = (if \<bar>o_size order\<bar> \<le> \<bar>t_size trade\<bar> then o_size order else - t_size trade);
          pnl = - sz * (price - t_entry_price trade);
          closed_trade = trade
      in if t_size closed_trade = 0 then Inl ZeroDivisionError
         else
           let size_ratio = 1 + sz / t_size closed_trade;
               partial = (t_size closed_trade \<noteq> - sz);
               trade' = trade
                 \<lparr>t_commission := t_commission trade * size_ratio,
                  t_max_drawdown := t_max_drawdown trade * size_ratio,
                  t_max_runup := t_max_runup trade * size_ratio\<rparr>;
               closed_trade' = closed_trade
                 \<lparr>t_commission :=
                    (if commission_type e = percent
                     then t_commission closed_trade
                            * ((1 - size_ratio) * commission_value e * (1 / 100) * price)
                     else t_commission closed_trade * (1 - size_ratio)),
                  t_max_drawdown := t_max_drawdown closed_trade * (1 - size_ratio),
                  t_max_runup := t_max_runup closed_trade * (1 - size_ratio)\<rparr>
           in Inr (f\<lparr>f_delete := True,
                     f_trade := (if partial then trade' else trade),
                     f_closed_trade := (if partial then closed_trade' else closed_trade),
                     f_size := sz, f_pnl := pnl\<rparr>))"

text \<open>Lines 376-385: profit at the high and at the low, added to the running sums.\<close>

definition add_drawdown_runup :: "real \<Rightarrow> real \<Rightarrow> frame \<Rightarrow> frame" where
  "add_drawdown_runup h l f =
     (let self = f_self f; closed_trade = f_closed_trade f; sz = f_size f;
          hprofit = - sz * (h - t_entry_price closed_trade) - t_commission closed_trade;
          lprofit = - sz * (l - t_entry_price closed_trade) - t_commission closed_trade;
          drawdown = - min (min hprofit lprofit) 0;
          runup = max (max hprofit lprofit) 0
      in f\<lparr>f_self := self\<lparr>drawdown_summ := drawdown_summ self + drawdown,
                             runup_summ := runup_summ self + runup\<rparr>\<rparr>)"

text \<open>Lines 387-406: the exit context of the copy, its entry in \<^verbatim>\<open>new_closed_trades\<close> and
  in the ring, the counter, the comment, and the commission it takes out of
  \<^verbatim>\<open>open_commission\<close>.\<close>

definition set_exit :: "env \<Rightarrow> Order \<Rightarrow> real \<Rightarrow> frame \<Rightarrow> error + frame" where
  "set_exit e order price f =
     (case o_exit_id order of
        None \<Rightarrow> Inl AssertionError
      | Some exit_id \<Rightarrow>
          let self = f_self f;
              closed_trade = (f_closed_trade f)
                \<lparr>t_size := - f_size f, t_exit_id := exit_id,
                 t_exit_bar_index := bar_index e, t_exit_time := lib_time e,
                 t_exit_price := price, t_profit := f_pnl f\<rparr>;
              ref = next_trade self;
              closed_trade = closed_trade
                \<lparr>t_exit_comment :=
                   (case o_comment order of
                      None \<Rightarrow> t_exit_comment closed_trade
                    | Some c \<Rightarrow> if c = [] then t_exit_comment closed_trade else c)\<rparr>
          in Inr (f\<lparr>f_new_closed_trades := f_new_closed_trades f @ [ref],
                    f_closed_trade := closed_trade,
                    f_self := self
                      \<lparr>closed_trades := deque_append (closed_trades self) ref,
                       closed_trades_count := closed_trades_count self + 1,
                       next_trade := ref + 1,
                       open_commission := open_commission self - t_commission closed_trade\<rparr>\<rparr>))"

text \<open>Lines 408-430: the commission of the closing fill (deferred for the two cash
  models), the profit percent, and the realised profit.\<close>

definition realize :: "env \<Rightarrow> real \<Rightarrow> frame \<Rightarrow> frame" where
  "realize e price f =
     (let self = f_self f; closed_trade = f_closed_trade f; sz = f_size f; pnl = f_pnl f;
          deferred = (commission_type e = cash_per_contract \<or> commission_type e = cash_per_order);
          commission = \<bar>sz\<bar> * commission_value e;
          commission = (if commission_type e = percent then commission * ((1 / 100) * price)
                        else commission);
          commission' = t_commission closed_trade + commission;
          closed_trade = closed_trade
            \<lparr>t_commission := (if deferred then t_commission closed_trade else commission'),
             t_profit := (if deferred then t_profit closed_trade
                          else t_profit closed_trade - commission')\<rparr>;
          entry_value = \<bar>t_size closed_trade\<bar> * t_entry_price closed_trade;
          closed_trade = closed_trade
            \<lparr>t_profit_percent := (if entry_value = 0 then 0 else (pnl / entry_value) * 100)\<rparr>
      in f\<lparr>f_closed_trade_size :=
             (if deferred then f_closed_trade_size f + \<bar>sz\<bar> else f_closed_trade_size f),
           f_closed_trade := closed_trade,
           f_self := self
             \<lparr>netprofit := (if deferred then netprofit self else netprofit self - commission)
                            + pnl\<rparr>\<rparr>)"

text \<open>Lines 432-440: the sizes of the position, of the trade and of the order; a
  position within the tolerance of zero is set to zero and the residue goes into
  \<^verbatim>\<open>size\<close>.\<close>

definition modify_sizes :: "env \<Rightarrow> nat \<Rightarrow> frame \<Rightarrow> error + frame" where
  "modify_sizes e r f =
     (let self = f_self f;
          new_size = position_size self + f_size f
      in bind_err (isclose_zero (size_round_factor e) new_size) (\<lambda>close.
           let sz = (if close then f_size f - new_size else f_size f);
               new_size = (if close then 0 else new_size);
               trade = f_trade f;
               order = order_store self r
           in Inr (f\<lparr>f_size := sz,
                     f_trade := trade\<lparr>t_size := t_size trade + sz\<rparr>,
                     f_self := self
                       \<lparr>position_size := new_size, sign := sign_of new_size,
                        order_store := (order_store self)
                          (r := order\<lparr>o_size := o_size order - sz\<rparr>)\<rparr>\<rparr>)))"

text \<open>Lines 442-465: the counters and gross sums, the average entry price and the open
  profit, and the equity recorded on the copy.\<close>

definition count_and_average :: "env \<Rightarrow> frame \<Rightarrow> frame" where
  "count_and_average e f =
     (let self = f_self f; closed_trade = f_closed_trade f;
          profit = t_profit closed_trade;
          self = self
            \<lparr>eventrades := (if profit = 0 then eventrades self + 1 else eventrades self),
             wintrades := (if profit \<noteq> 0 \<and> 0 < profit then wintrades self + 1 else wintrades self),
             grossprofit := (if profit \<noteq> 0 \<and> 0 < profit then grossprofit self + profit
                             else grossprofit self),
             losstrades := (if profit \<noteq> 0 \<and> \<not> 0 < profit then losstrades self + 1
                            else losstrades self),
             grossloss := (if profit \<noteq> 0 \<and> \<not> 0 < profit then grossloss self - profit
                           else grossloss self)\<rparr>;
          open = (position_size self \<noteq> 0);
          entry_summ' = entry_summ self - t_entry_price closed_trade * \<bar>t_size closed_trade\<bar>;
          avg_price' = entry_summ' / \<bar>position_size self\<bar>;
          self = self
            \<lparr>entry_summ := (if open then entry_summ' else entry_summ self),
             avg_price := (if open then avg_price' else 0),
             openprofit := (if open then position_size self * (bar_c self - avg_price') else 0)\<rparr>
      in f\<lparr>f_closed_trade := closed_trade\<lparr>t_exit_equity := Some (equity e self)\<rparr>,
           f_self := self\<rparr>)"

text \<open>Lines 467-477: the copy is complete; a trade that is used up leaves the list,
  another one stays, after the adjustment for a profitable partial close.\<close>

definition keep_or_drop :: "frame \<Rightarrow> frame" where
  "keep_or_drop f =
     (let self = f_self f; trade = f_trade f; closed_trade = f_closed_trade f;
          self = self\<lparr>trade_store :=
                   (trade_store self)(last (f_new_closed_trades f) := closed_trade)\<rparr>;
          adjust = (t_size trade \<noteq> 0 \<and> 0 < f_pnl f);
          c = t_commission closed_trade
      in f\<lparr>f_open_trades := (if t_size trade = 0 then f_open_trades f
                              else f_open_trades f @ [trade]),
           f_self := self
             \<lparr>runup_summ := (if adjust then runup_summ self - c else runup_summ self),
              drawdown_summ := (if adjust then drawdown_summ self + c / 2
                                else drawdown_summ self),
              entry_equity := (if adjust then entry_equity self + c / 2
                               else entry_equity self)\<rparr>\<rparr>)"

text \<open>One iteration of the loop: the body applies when the order still has size and the
  trade's entry id is the order's id, or the order has none.\<close>

definition close_trade :: "env \<Rightarrow> nat \<Rightarrow> real \<Rightarrow> real \<Rightarrow> real \<Rightarrow> Trade \<Rightarrow> frame \<Rightarrow> error + frame" where
  "close_trade e r price h l trade f =
     (let order = order_store (f_self f) r
      in if o_size order \<noteq> 0 \<and> (Some (t_entry_id trade) = o_order_id order \<or> o_order_id order = None)
         then
           bind_err (split_trade e order price trade f) (\<lambda>f.
           bind_err (set_exit e order price (add_drawdown_runup h l f)) (\<lambda>f.
           bind_err (modify_sizes e r (realize e price f)) (\<lambda>f.
           Inr (keep_or_drop (count_and_average e f)))))
         else Inr (f\<lparr>f_open_trades := f_open_trades f @ [trade]\<rparr>))"

fun close_walk :: "env \<Rightarrow> nat \<Rightarrow> real \<Rightarrow> real \<Rightarrow> real \<Rightarrow> Trade list \<Rightarrow> frame \<Rightarrow> error + frame" where
  "close_walk e r price h l [] f = Inr f"
| "close_walk e r price h l (trade # trades) f =
     bind_err (close_trade e r price h l trade f) (close_walk e r price h l trades)"

text \<open>Lines 484-489, cash per order: the one commission of the order is divided among
  the trades closed in this call, in proportion to their sizes.\<close>

fun share_commission :: "env \<Rightarrow> real \<Rightarrow> nat list \<Rightarrow> Position \<Rightarrow> error + Position" where
  "share_commission e closed_trade_size [] self = Inr self"
| "share_commission e closed_trade_size (ref # refs) self =
     (if closed_trade_size = 0 then Inl ZeroDivisionError
      else
        let trade = trade_store self ref;
            commission = (commission_value e * \<bar>t_size trade\<bar>) / closed_trade_size
        in share_commission e closed_trade_size refs
             (self\<lparr>trade_store := (trade_store self)
                (ref := trade\<lparr>t_commission := t_commission trade + commission\<rparr>)\<rparr>))"

text \<open>Lines 345-491, the closing branch.\<close>

definition close_position :: "env \<Rightarrow> nat \<Rightarrow> real \<Rightarrow> real \<Rightarrow> real \<Rightarrow> Position \<Rightarrow> error + Position" where
  "close_position e r price h l self =
     bind_err
       (close_walk e r price h l (open_trades self)
          \<lparr>f_self = self, f_delete = False, f_open_trades = [], f_new_closed_trades = [],
           f_closed_trade_size = 0, f_trade = blank_trade, f_closed_trade = blank_trade,
           f_size = 0, f_pnl = 0\<rparr>)
       (\<lambda>f.
          let self = (f_self f)\<lparr>open_trades := f_open_trades f\<rparr>;
              order = order_store self r
          in bind_err
               (if f_delete f
                then
                  let self = self\<lparr>exit_orders :=
                        (case o_exit_id order of
                           None \<Rightarrow> exit_orders self
                         | Some exit_id \<Rightarrow> AList.delete exit_id (exit_orders self))\<rparr>
                  in if commission_type e = cash_per_order
                     then share_commission e (f_closed_trade_size f) (f_new_closed_trades f)
                            (self\<lparr>netprofit := netprofit self - commission_value e\<rparr>)
                     else Inr self
                else Inr self)
               (\<lambda>self. Inr (self\<lparr>new_closed_trades :=
                                   new_closed_trades self @ f_new_closed_trades f\<rparr>)))"

text \<open>Lines 494-549, the opening branch.\<close>

definition open_trade :: "env \<Rightarrow> nat \<Rightarrow> real \<Rightarrow> Position \<Rightarrow> error + Position" where
  "open_trade e r price self =
     (let order = order_store self r
      in bind_err
           (if commission_value e \<noteq> 0
            then (case commission_type e of
                    cash_per_order \<Rightarrow> Inr (commission_value e)
                  | percent \<Rightarrow> Inr (\<bar>o_size order\<bar> * commission_value e * (1 / 100) * price)
                  | cash_per_contract \<Rightarrow> Inr (\<bar>o_size order\<bar> * commission_value e)
                  | commission_unknown \<Rightarrow> Inl AssertionError)
            else Inr 0)
           (\<lambda>commission.
              let before_equity = equity e self;
                  self = self\<lparr>netprofit := netprofit self - commission\<rparr>;
                  entry_equity' = equity e self;
                  fresh = (open_trades self = []);
                  self = self
                    \<lparr>max_equity :=
                       (if fresh
                        then Some (case max_equity self of
                                     None \<Rightarrow> entry_equity' | Some m \<Rightarrow> max m entry_equity')
                        else max_equity self),
                     min_equity :=
                       (if fresh
                        then Some (case min_equity self of
                                     None \<Rightarrow> entry_equity' | Some m \<Rightarrow> min m entry_equity')
                        else min_equity self),
                     entry_equity := (if fresh then entry_equity' else entry_equity self)\<rparr>
              in case o_order_id order of
                   None \<Rightarrow> Inl AssertionError
                 | Some order_id \<Rightarrow>
                     let trade = Trade_init (o_size order) order_id (bar_index e) (lib_time e)
                                   price commission (o_comment order) before_equity;
                         new_size = position_size self + t_size trade;
                         entry_summ' = entry_summ self + price * \<bar>o_size order\<bar>;
                         avg_price' = (if \<bar>new_size\<bar> = 0 then 0 else entry_summ' / \<bar>new_size\<bar>);
                         self = self
                           \<lparr>open_trades := open_trades self @ [trade],
                            position_size := new_size, sign := sign_of new_size,
                            entry_summ := entry_summ', avg_price := avg_price',
                            openprofit := new_size * (bar_c self - avg_price'),
                            open_commission := open_commission self + commission\<rparr>
                     in Inr (if o_order_type order = order_type_entry \<and> order_id \<noteq> []
                             then self\<lparr>entry_orders := AList.delete order_id (entry_orders self)\<rparr>
                             else (case o_exit_id order of
                                     None \<Rightarrow> self
                                   | Some exit_id \<Rightarrow>
                                       if exit_id = [] then self
                                       else self\<lparr>exit_orders :=
                                              AList.delete exit_id (exit_orders self)\<rparr>))))"

text \<open>\<^verbatim>\<open>Position._fill_order(order, price, h, l)\<close>; \<open>r\<close> is the reference of the order.\<close>

definition fill_order_impl :: "env \<Rightarrow> nat \<Rightarrow> real \<Rightarrow> real \<Rightarrow> real \<Rightarrow> Position \<Rightarrow> error + Position" where
  "fill_order_impl e r price h l self =
     (let order = order_store self r
      in bind_err
           (if position_size self \<noteq> 0 \<and> o_order_type order \<noteq> order_type_entry
                 \<and> o_sign order \<noteq> sign self
            then close_position e r price h l self
            else if o_order_type order \<noteq> order_type_close
            then open_trade e r price self
            else Inr self)
           (\<lambda>self.
              Inr (if open_trades self = []
                   then self\<lparr>entry_summ := 0, avg_price := 0, openprofit := 0,
                             open_commission := 0\<rparr>
                   else self)))"

subsection \<open>\<^verbatim>\<open>Position.fill_order\<close>\<close>

text \<open>
  \<^verbatim>\<open>Position.fill_order(order, price, h, l)\<close>, returning whether the side of the position
  has changed. Line 572 reads
  \<^verbatim>\<open>if new_size != 0.0 and not math.isclose(new_size, 0.0, abs_tol=...): new_size = 0.0\<close>:
  the new size is set to zero when it is \<^emph>\<open>not\<close> within the tolerance of zero.
\<close>

definition fill_order :: "env \<Rightarrow> nat \<Rightarrow> real \<Rightarrow> real \<Rightarrow> real \<Rightarrow> Position \<Rightarrow> error + (bool \<times> Position)" where
  "fill_order e r price h l self =
     (let order = order_store self r;
          new_size = position_size self + o_size order
      in bind_err
           (if new_size \<noteq> 0 then isclose_zero (size_round_factor e) new_size else Inr True)
           (\<lambda>close.
              let new_size = (if new_size \<noteq> 0 \<and> \<not> close then 0 else new_size);
                  new_sign = sign_of new_size
              in if position_size self \<noteq> 0 \<and> new_sign \<noteq> sign self \<and> new_size \<noteq> 0
                 then
                   if o_order_type order = order_type_close
                   then
                     bind_err
                       (fill_order_impl e r price h l
                          (self\<lparr>order_store := (order_store self)
                             (r := order\<lparr>o_size := - position_size self\<rparr>)\<rparr>))
                       (\<lambda>self. Inr (False, self))
                   else
                     let order1 = order
                           \<lparr>o_order_type := order_type_close, o_size := - position_size self,
                            o_order_id := None, o_exit_id := o_order_id order\<rparr>;
                         (r1, self) = alloc_order order1 self
                     in bind_err (fill_order_impl e r1 price h l self)
                          (\<lambda>self.
                             let new_direction_sign = (if 0 < new_size then 1 else - 1) :: real
                             in if (case risk_allowed_direction self of
                                      None \<Rightarrow> False
                                    | Some d \<Rightarrow>
                                        (0 < new_direction_sign \<and> d \<noteq> long)
                                        \<or> (new_direction_sign < 0 \<and> d \<noteq> short))
                                then Inr (False, self)
                                else
                                  let order = (order_store self r)\<lparr>o_size := new_size\<rparr>;
                                      self = self\<lparr>order_store := (order_store self)(r := order)\<rparr>
                                  in bind_err
                                       (if o_order_type order = order_type_entry
                                        then (case o_order_id order of
                                                None \<Rightarrow> Inl AssertionError
                                              | Some order_id \<Rightarrow>
                                                  Inr (self\<lparr>entry_orders :=
                                                    AList.update order_id r (entry_orders self)\<rparr>))
                                        else (case o_exit_id order of
                                                None \<Rightarrow> Inl AssertionError
                                              | Some exit_id \<Rightarrow>
                                                  Inr (self\<lparr>exit_orders :=
                                                    AList.update exit_id r (exit_orders self)\<rparr>)))
                                       (\<lambda>self.
                                          bind_err (fill_order_impl e r price h l self)
                                            (\<lambda>self. Inr (True, self))))
                 else bind_err (fill_order_impl e r price h l self) (\<lambda>self. Inr (False, self))))"

subsection \<open>Matching a pending order against the bar\<close>

text \<open>In the four checks a price that is \<^verbatim>\<open>NA\<close> never triggers (see \<open>py_le\<close>), and a
  price that triggered is a number.\<close>

text \<open>\<^verbatim>\<open>Position._check_high_stop\<close>\<close>

definition check_high_stop :: "env \<Rightarrow> nat \<Rightarrow> Position \<Rightarrow> error + Position" where
  "check_high_stop e r self =
     (let order = order_store self r
      in case o_stop order of
           PyNone \<Rightarrow> Inr self
         | NA \<Rightarrow> Inr self
         | Num stop \<Rightarrow>
             if ((o_order_type order = order_type_close \<and> 0 < o_size order)
                 \<or> (o_order_type order = order_type_entry \<and> 0 < o_size order))
                \<and> stop \<le> bar_h self
             then (let p = max stop (bar_o self)
                   in bind_err (fill_order e r p p (bar_l self) self) (\<lambda>res. Inr (snd res)))
             else Inr self)"

text \<open>The second half of \<^verbatim>\<open>_check_high\<close>: the trailing stop of a selling order.\<close>

definition trail_high :: "env \<Rightarrow> nat \<Rightarrow> Position \<Rightarrow> error + Position" where
  "trail_high e r self =
     (let order = order_store self r
      in if o_trail_price order \<noteq> PyNone \<and> o_sign order < 0
         then
           bind_err
             (if \<not> o_trail_triggered order then py_lt (o_trail_price order) (bar_h self)
              else Inr False)
             (\<lambda>hit.
                let order = order\<lparr>o_trail_triggered := (o_trail_triggered order \<or> hit)\<rparr>
                in if o_trail_triggered order
                   then
                     bind_err
                       (py_max (round_to_mintick e (bar_h self - mintick e * o_trail_offset order))
                          (o_stop order))
                       (\<lambda>stop. Inr (self\<lparr>order_store := (order_store self)
                                               (r := order\<lparr>o_stop := Num stop\<rparr>)\<rparr>))
                   else Inr (self\<lparr>order_store := (order_store self)(r := order)\<rparr>))
         else Inr self)"

text \<open>\<^verbatim>\<open>Position._check_high\<close>\<close>

definition check_high :: "env \<Rightarrow> nat \<Rightarrow> Position \<Rightarrow> error + Position" where
  "check_high e r self =
     (let order = order_store self r
      in bind_err
           (case o_limit order of
              PyNone \<Rightarrow> Inr self
            | NA \<Rightarrow> Inr self
            | Num limit \<Rightarrow>
                if ((o_order_type order = order_type_close \<and> o_size order < 0)
                    \<or> (o_order_type order = order_type_entry \<and> o_size order < 0))
                   \<and> limit \<le> bar_h self
                then (let p = max limit (bar_o self)
                      in bind_err (fill_order e r p p (bar_l self) self) (\<lambda>res. Inr (snd res)))
                else Inr self)
           (trail_high e r))"

text \<open>\<^verbatim>\<open>Position._check_low_stop\<close>\<close>

definition check_low_stop :: "env \<Rightarrow> nat \<Rightarrow> Position \<Rightarrow> error + Position" where
  "check_low_stop e r self =
     (let order = order_store self r
      in case o_stop order of
           PyNone \<Rightarrow> Inr self
         | NA \<Rightarrow> Inr self
         | Num stop \<Rightarrow>
             if ((o_order_type order = order_type_close \<and> o_size order < 0)
                 \<or> (o_order_type order = order_type_entry \<and> o_size order < 0))
                \<and> bar_l self \<le> stop
             then (let p = min (bar_o self) stop
                   in bind_err (fill_order e r p (bar_h self) p self) (\<lambda>res. Inr (snd res)))
             else Inr self)"

text \<open>The second half of \<^verbatim>\<open>_check_low\<close>: the trailing stop of a buying order.\<close>

definition trail_low :: "env \<Rightarrow> nat \<Rightarrow> Position \<Rightarrow> error + Position" where
  "trail_low e r self =
     (let order = order_store self r
      in if o_trail_price order \<noteq> PyNone \<and> 0 < o_sign order
         then
           bind_err
             (if \<not> o_trail_triggered order then py_gt (o_trail_price order) (bar_l self)
              else Inr False)
             (\<lambda>hit.
                let order = order\<lparr>o_trail_triggered := (o_trail_triggered order \<or> hit)\<rparr>
                in if o_trail_triggered order
                   then
                     bind_err
                       (py_min (round_to_mintick e (bar_l self + mintick e * o_trail_offset order))
                          (o_stop order))
                       (\<lambda>stop. Inr (self\<lparr>order_store := (order_store self)
                                               (r := order\<lparr>o_stop := Num stop\<rparr>)\<rparr>))
                   else Inr (self\<lparr>order_store := (order_store self)(r := order)\<rparr>))
         else Inr self)"

text \<open>\<^verbatim>\<open>Position._check_low\<close>\<close>

definition check_low :: "env \<Rightarrow> nat \<Rightarrow> Position \<Rightarrow> error + Position" where
  "check_low e r self =
     (let order = order_store self r
      in bind_err
           (case o_limit order of
              PyNone \<Rightarrow> Inr self
            | NA \<Rightarrow> Inr self
            | Num limit \<Rightarrow>
                if ((o_order_type order = order_type_close \<and> 0 < o_size order)
                    \<or> (o_order_type order = order_type_entry \<and> 0 < o_size order))
                   \<and> bar_l self \<le> limit
                then (let p = min (bar_o self) limit
                      in bind_err (fill_order e r p (bar_h self) p self) (\<lambda>res. Inr (snd res)))
                else Inr self)
           (trail_low e r))"

text \<open>\<^verbatim>\<open>Position._check_close(order, ohlcv)\<close>; its caller has excluded \<^verbatim>\<open>None\<close>, which
  would be a \<^verbatim>\<open>TypeError\<close> in the comparison.\<close>

definition check_close :: "env \<Rightarrow> nat \<Rightarrow> bool \<Rightarrow> Position \<Rightarrow> error + Position" where
  "check_close e r ohlcv self =
     (let order = order_store self r
      in case o_stop order of
           PyNone \<Rightarrow> Inl TypeError
         | NA \<Rightarrow> Inr self
         | Num stop \<Rightarrow>
             if ohlcv \<and> stop \<le> bar_c self
             then bind_err (fill_order e r stop stop (bar_l self) self) (\<lambda>res. Inr (snd res))
             else if bar_c self \<le> stop
             then bind_err (fill_order e r stop (bar_h self) stop self) (\<lambda>res. Inr (snd res))
             else Inr self)"

subsection \<open>The bar processor: \<^verbatim>\<open>Position.process_orders\<close>\<close>

text \<open>The search for the open trade with the order's id (lines 712-716).\<close>

fun find_entry_price :: "string \<Rightarrow> Trade list \<Rightarrow> real option" where
  "find_entry_price order_id [] = None"
| "find_entry_price order_id (trade # trades) =
     (if t_entry_id trade = order_id then Some (t_entry_price trade)
      else find_entry_price order_id trades)"

text \<open>Lines 719-736: the prices of an exit order that were given as distances in ticks.\<close>

definition set_tick_prices :: "env \<Rightarrow> nat \<Rightarrow> real \<Rightarrow> Position \<Rightarrow> error + Position" where
  "set_tick_prices e r entry_price self =
     (let order = order_store self r;
          direction = (if o_size order < 0 then 1 else - 1) :: real
      in bind_err
           (case o_profit_ticks order of
              None \<Rightarrow> Inr order
            | Some ticks \<Rightarrow>
                if is_none (o_limit order)
                then bind_err
                       (price_round (mintick e)
                          (Num (entry_price + direction * mintick e * ticks)) direction)
                       (\<lambda>v. Inr (order\<lparr>o_limit := v\<rparr>))
                else Inr order)
           (\<lambda>order.
              bind_err
                (case o_loss_ticks order of
                   None \<Rightarrow> Inr order
                 | Some ticks \<Rightarrow>
                     if is_none (o_stop order)
                     then bind_err
                            (price_round (mintick e)
                               (Num (entry_price - direction * mintick e * ticks)) (- direction))
                            (\<lambda>v. Inr (order\<lparr>o_stop := v\<rparr>))
                     else Inr order)
                (\<lambda>order.
                   bind_err
                     (case o_trail_points_ticks order of
                        None \<Rightarrow> Inr order
                      | Some ticks \<Rightarrow>
                          if is_none (o_trail_price order)
                          then bind_err
                                 (price_round (mintick e)
                                    (Num (entry_price + direction * mintick e * ticks)) direction)
                                 (\<lambda>v. Inr (order\<lparr>o_trail_price := v\<rparr>))
                          else Inr order)
                     (\<lambda>order. Inr (self\<lparr>order_store := (order_store self)(r := order)\<rparr>)))))"

text \<open>Lines 710-736 and 770-799: an exit order with a non-empty order id looks up its
  trade; the second round does so only while neither limit nor stop is set.\<close>

definition resolve_ticks :: "env \<Rightarrow> bool \<Rightarrow> nat \<Rightarrow> Position \<Rightarrow> error + Position" where
  "resolve_ticks e second_round r self =
     (let order = order_store self r
      in case o_order_id order of
           None \<Rightarrow> Inr self
         | Some order_id \<Rightarrow>
             if o_order_type order = order_type_close \<and> order_id \<noteq> []
                \<and> (if second_round
                    then (o_profit_ticks order \<noteq> None \<or> o_loss_ticks order \<noteq> None
                          \<or> o_trail_points_ticks order \<noteq> None)
                         \<and> is_none (o_limit order) \<and> is_none (o_stop order)
                    else True)
             then (case find_entry_price order_id (open_trades self) of
                     None \<Rightarrow> Inr self
                   | Some entry_price \<Rightarrow> set_tick_prices e r entry_price self)
             else Inr self)"

text \<open>Lines 708-765: the body of the first loop.\<close>

definition first_round :: "env \<Rightarrow> bool \<Rightarrow> nat \<Rightarrow> Position \<Rightarrow> error + Position" where
  "first_round e ohlc r self =
     bind_err (resolve_ticks e False r self) (\<lambda>self.
       let order = order_store self r
       in if o_is_market_order order
          then
            let fill_price = (if 0 < slippage e
                              then prev_c self + mintick e * slippage e * o_sign order
                              else prev_c self)
            in bind_err
                 (if ohlc then fill_order e r fill_price (bar_o self) (bar_l self) self
                  else fill_order e r fill_price (bar_l self) (bar_o self) self)
                 (\<lambda>res. Inr (snd res))
          else if ohlc
          then bind_err (check_high_stop e r self) (check_high e r)
          else bind_err (check_low_stop e r self) (check_low e r))"

text \<open>Lines 768-812: the body of the second loop.\<close>

definition second_round :: "env \<Rightarrow> bool \<Rightarrow> nat \<Rightarrow> Position \<Rightarrow> error + Position" where
  "second_round e ohlc r self =
     bind_err (resolve_ticks e True r self) (\<lambda>self.
     bind_err
       (if ohlc then bind_err (check_low_stop e r self) (check_low e r)
        else bind_err (check_high_stop e r self) (check_high e r))
       (\<lambda>self.
          let order = order_store self r
          in if o_trail_triggered order \<and> o_stop order \<noteq> PyNone
             then check_close e r ohlc self
             else Inr self))"

text \<open>A \<^verbatim>\<open>for\<close> loop over the snapshot of the pending orders.\<close>

fun for_orders :: "(nat \<Rightarrow> Position \<Rightarrow> error + Position) \<Rightarrow> nat list \<Rightarrow> Position \<Rightarrow> error + Position" where
  "for_orders body [] self = Inr self"
| "for_orders body (r # rs) self = bind_err (body r self) (for_orders body rs)"

text \<open>Lines 820-852: the unrealised figures of one open trade; the result carries the
  trade's drawdown and run-up of this bar.\<close>

definition mark_trade :: "Position \<Rightarrow> Trade \<Rightarrow> Trade \<times> real \<times> real" where
  "mark_trade self trade =
     (let profit = t_size trade * (bar_c self - t_entry_price trade) - 2 * t_commission trade;
          hprofit = t_size trade * (bar_h self - avg_price self) - t_commission trade;
          lprofit = t_size trade * (bar_l self - avg_price self) - t_commission trade;
          drawdown = - min (min hprofit lprofit) 0;
          runup = max (max hprofit lprofit) 0;
          trade_value = \<bar>t_size trade\<bar> * t_entry_price trade
      in (trade
            \<lparr>t_profit := profit,
             t_max_drawdown := max drawdown (t_max_drawdown trade),
             t_max_runup := max runup (t_max_runup trade),
             t_max_drawdown_percent :=
               (if 0 < trade_value
                then max (if 0 < drawdown then (drawdown / trade_value) * 100 else 0)
                       (t_max_drawdown_percent trade)
                else t_max_drawdown_percent trade),
             t_max_runup_percent :=
               (if 0 < trade_value
                then max (if 0 < runup then (runup / trade_value) * 100 else 0)
                       (t_max_runup_percent trade)
                else t_max_runup_percent trade)\<rparr>,
          drawdown, runup))"

text \<open>Lines 815-852.\<close>

definition mark_open_trades :: "Position \<Rightarrow> Position" where
  "mark_open_trades self =
     (if open_trades self = [] then self
      else
        let self = self\<lparr>openprofit := position_size self * (bar_c self - avg_price self)\<rparr>;
            marks = map (mark_trade self) (open_trades self)
        in self\<lparr>open_trades := map fst marks,
                drawdown_summ := drawdown_summ self + sum_list (map (fst \<circ> snd) marks),
                runup_summ := runup_summ self + sum_list (map (snd \<circ> snd) marks)\<rparr>)"

text \<open>Lines 855-857; an equity extreme that is still infinite leaves the maximum as it is.\<close>

definition update_extremes :: "Position \<Rightarrow> Position" where
  "update_extremes self =
     (if drawdown_summ self \<noteq> 0 \<or> runup_summ self \<noteq> 0
      then self
        \<lparr>max_drawdown :=
           (case max_equity self of
              None \<Rightarrow> max_drawdown self
            | Some m \<Rightarrow> max (max_drawdown self) (m - entry_equity self + drawdown_summ self)),
         max_runup :=
           (case min_equity self of
              None \<Rightarrow> max_runup self
            | Some m \<Rightarrow> max (max_runup self) (entry_equity self - m + runup_summ self))\<rparr>
      else self)"

text \<open>Lines 863-913: the cumulative figures of one trade closed in this bar. The two
  percentages of drawdown and run-up divide outside any \<^verbatim>\<open>try\<close>.\<close>

definition cumulate :: "env \<Rightarrow> nat \<Rightarrow> Position \<Rightarrow> error + Position" where
  "cumulate e ref self =
     (let closed_trade = trade_store self ref;
          profit = t_profit closed_trade;
          previous_cum_profit = cum_profit self - profit;
          max_drawdown1 = - min (min profit (- t_max_drawdown closed_trade)) 0;
          max_runup1 = max (max profit (t_max_runup closed_trade)) 0;
          cum_profit' = equity e self - initial_capital e - openprofit self;
          same_bar = (t_entry_bar_index closed_trade = t_exit_bar_index closed_trade);
          hprofit = t_size closed_trade * (bar_h self - t_entry_price closed_trade)
                      - t_commission closed_trade;
          lprofit = t_size closed_trade * (bar_l self - t_entry_price closed_trade)
                      - t_commission closed_trade;
          max_drawdown2 = (if same_bar then min (- min (min hprofit lprofit) 0) profit
                           else max_drawdown1);
          max_runup2 = (if same_bar then min (max (max hprofit lprofit) 0) profit
                        else max_runup1);
          trade_value = \<bar>t_size closed_trade\<bar> * t_entry_price closed_trade;
          denominator = initial_capital e + previous_cum_profit;
          divides = (denominator \<noteq> 0 \<and> t_size closed_trade * t_entry_price closed_trade \<noteq> 0)
      in if (0 < max_drawdown2 \<or> 0 < max_runup2) \<and> trade_value = 0 then Inl ZeroDivisionError
         else
           Inr (self
             \<lparr>cum_profit := cum_profit',
              entry_equity := entry_equity self + profit,
              trade_store := (trade_store self)
                (ref := closed_trade
                   \<lparr>t_max_drawdown := max_drawdown2,
                    t_max_runup := max_runup2,
                    t_cum_profit := cum_profit',
                    t_cum_max_drawdown := max_drawdown self,
                    t_cum_max_runup := max_runup self,
                    t_max_drawdown_percent :=
                      max (if 0 < max_drawdown2 then (max_drawdown2 / trade_value) * 100 else 0)
                        (t_max_drawdown_percent closed_trade),
                    t_max_runup_percent :=
                      max (if 0 < max_runup2 then (max_runup2 / trade_value) * 100 else 0)
                        (t_max_runup_percent closed_trade),
                    t_cum_profit_percent :=
                      (if divides then (profit / denominator) * 100 else 0),
                    t_profit_percent :=
                      (if divides
                       then (profit / (t_size closed_trade * t_entry_price closed_trade)) * 100
                       else 0)\<rparr>)\<rparr>))"

text \<open>\<^verbatim>\<open>Position.process_orders()\<close>\<close>

definition process_orders :: "env \<Rightarrow> Position \<Rightarrow> error + Position" where
  "process_orders e self =
     (let self = self
            \<lparr>bar_o := round_to_mintick e (lib_open e),
             bar_h := round_to_mintick e (lib_high e),
             bar_l := round_to_mintick e (lib_low e),
             bar_c := round_to_mintick e (lib_close e),
             prev_c := round_to_mintick e (prev_c self)\<rparr>;
          ohlc = (\<bar>bar_h self - bar_o self\<bar> < \<bar>bar_l self - bar_o self\<bar>);
          self = self\<lparr>drawdown_summ := 0, runup_summ := 0, new_closed_trades := []\<rparr>
      in bind_err
           (for_orders (first_round e ohlc)
              (map snd (entry_orders self) @ map snd (exit_orders self)) self)
           (\<lambda>self.
              bind_err
                (for_orders (second_round e ohlc)
                   (map snd (entry_orders self) @ map snd (exit_orders self)) self)
                (\<lambda>self.
                   let self = update_extremes (mark_open_trades self)
                   in for_orders (cumulate e) (new_closed_trades self) self)))"

subsection \<open>The strategy API\<close>

text \<open>An argument of type \<^verbatim>\<open>float | NA\<close> is a \<open>real option\<close> with \<open>None\<close> for \<^verbatim>\<open>NA\<close>;
  a test such as \<^verbatim>\<open>qty <= 0.0\<close> is false for \<^verbatim>\<open>NA\<close> (see \<open>py_le\<close>).\<close>

definition of_na :: "real option \<Rightarrow> pyfloat" where
  "of_na v = (case v of None \<Rightarrow> NA | Some x \<Rightarrow> Num x)"

text \<open>\<^verbatim>\<open>cancel(id)\<close>\<close>

definition cancel :: "env \<Rightarrow> string \<Rightarrow> Position \<Rightarrow> Position" where
  "cancel e order_id self =
     (if lib_semaphore e then self
      else self\<lparr>entry_orders := AList.delete order_id (entry_orders self),
                exit_orders := AList.delete order_id (exit_orders self)\<rparr>)"

text \<open>\<^verbatim>\<open>cancel_all()\<close>\<close>

definition cancel_all :: "env \<Rightarrow> Position \<Rightarrow> Position" where
  "cancel_all e self =
     (if lib_semaphore e then self else self\<lparr>entry_orders := [], exit_orders := []\<rparr>)"

text \<open>\<^verbatim>\<open>close(id, comment, qty, qty_percent, alert_message, immediately)\<close>\<close>

definition close ::
  "env \<Rightarrow> string \<Rightarrow> string option \<Rightarrow> real option \<Rightarrow> real option \<Rightarrow> string option \<Rightarrow> bool \<Rightarrow>
   Position \<Rightarrow> error + Position" where
  "close e order_id comment qty qty_percent alert_message immediately self =
     (if lib_semaphore e then Inr self
      else if (case qty of None \<Rightarrow> False | Some q \<Rightarrow> q \<le> 0) then Inr self
      else if position_size self = 0 then Inr self
      else
        let sz = (case qty of
                    None \<Rightarrow> (case qty_percent of
                               Some pc \<Rightarrow> - position_size self * (pc * (1 / 100))
                             | None \<Rightarrow> - position_size self)
                  | Some q \<Rightarrow> - sign self * q)
        in bind_err (size_round (size_round_factor e) sz) (\<lambda>sz.
             if sz = 0 then Inr self
             else
               let exit_id = ''Close entry(s) order '' @ order_id;
                   order = Order_init (Some order_id) sz order_type_close (Some exit_id)
                             PyNone PyNone None None comment alert_message
                             PyNone PyNone None None None;
                   (r, self) = alloc_order order self;
                   self = self\<lparr>exit_orders := AList.update exit_id r (exit_orders self)\<rparr>
               in if immediately
                  then bind_err
                         (fill_order e r (round_to_mintick e (lib_close e))
                            (round_to_mintick e (lib_high e)) (round_to_mintick e (lib_low e)) self)
                         (\<lambda>res. Inr (snd res))
                  else Inr self))"

text \<open>\<^verbatim>\<open>close_all(comment, alert_message, immediately)\<close>\<close>

definition close_all ::
  "env \<Rightarrow> string option \<Rightarrow> string option \<Rightarrow> bool \<Rightarrow> Position \<Rightarrow> error + Position" where
  "close_all e comment alert_message immediately self =
     (if lib_semaphore e then Inr self
      else if position_size self = 0 then Inr self
      else
        let exit_id = ''Close position order'';
            order = Order_init None (- position_size self) order_type_close (Some exit_id)
                      PyNone PyNone None None comment alert_message
                      PyNone PyNone None None None;
            (r, self) = alloc_order order self;
            self = self\<lparr>exit_orders := AList.update exit_id r (exit_orders self)\<rparr>
        in if immediately
           then bind_err
                  (fill_order e r (round_to_mintick e (lib_close e))
                     (round_to_mintick e (lib_high e)) (round_to_mintick e (lib_low e)) self)
                  (\<lambda>res. Inr (snd res))
           else Inr self)"

text \<open>Lines 1131-1177 of \<^verbatim>\<open>entry\<close>: the quantity when none is given.\<close>

definition default_qty :: "env \<Rightarrow> Position \<Rightarrow> error + real" where
  "default_qty e self =
     (let value = lib_close e * pointvalue e
      in case default_qty_type e of
           fixed \<Rightarrow> Inr (default_qty_value e)
         | percent_of_equity \<Rightarrow>
             let equity_percent = default_qty_value e * (1 / 100);
                 target_investment = equity e self * equity_percent
             in (case commission_type e of
                   percent \<Rightarrow>
                     let commission_multiplier = 1 + commission_value e * (1 / 100)
                     in if value * commission_multiplier = 0 then Inl ZeroDivisionError
                        else Inr (target_investment / (value * commission_multiplier))
                 | cash_per_contract \<Rightarrow>
                     let price_plus_commission = value + commission_value e
                     in if price_plus_commission = 0 then Inl ZeroDivisionError
                        else Inr (target_investment / price_plus_commission)
                 | cash_per_order \<Rightarrow>
                     if value = 0 then Inl ZeroDivisionError
                     else Inr (max 0 ((target_investment - commission_value e) / value))
                 | commission_unknown \<Rightarrow>
                     if value = 0 then Inl ZeroDivisionError
                     else Inr (target_investment / value))
         | cash \<Rightarrow>
             if value = 0 then Inl ZeroDivisionError else Inr (default_qty_value e / value)
         | qty_type_unknown \<Rightarrow> Inl ValueError)"

text \<open>Lines 1206-1214 of \<^verbatim>\<open>entry\<close>: the cap on the position size; \<open>None\<close> is the early
  return.\<close>

definition cap_size :: "Position \<Rightarrow> real \<Rightarrow> real \<Rightarrow> real option" where
  "cap_size self sz sz_sign =
     (case risk_max_position_size self of
        None \<Rightarrow> Some sz
      | Some cap \<Rightarrow>
          if cap < \<bar>position_size self + sz\<bar>
          then (let max_allowed_size = cap - \<bar>position_size self\<bar>
                in if max_allowed_size \<le> 0 then None else Some (max_allowed_size * sz_sign))
          else Some sz)"

text \<open>\<^verbatim>\<open>entry(id, direction, qty, limit, stop, oca_name, oca_type, comment, alert_message)\<close>\<close>

definition entry ::
  "env \<Rightarrow> string \<Rightarrow> direction \<Rightarrow> real option \<Rightarrow> real option \<Rightarrow> real option \<Rightarrow>
   string option \<Rightarrow> string option \<Rightarrow> string option \<Rightarrow> string option \<Rightarrow>
   Position \<Rightarrow> error + Position" where
  "entry e order_id dir qty limit stop oca_name oca_type comment alert_message self =
     (if lib_semaphore e then Inr self
      else if risk_halt_trading self then Inr self
      else
        bind_err (case qty of None \<Rightarrow> default_qty e self | Some q \<Rightarrow> Inr q) (\<lambda>qty.
          if qty \<le> 0 then Inr self
          else
            let direction_sign = (if dir = short then - 1 else 1) :: real;
                margin = (if dir = short then margin_short e else margin_long e)
            in if margin = 0 then Inl ZeroDivisionError
               else
                 let sz = qty * direction_sign / margin;
                     sz_sign = sign_of sz
                 in if position_size self \<noteq> 0 \<and> sign self = sz_sign
                       \<and> pyramiding e \<le> int (length (open_trades self))
                    then Inr self
                    else if (case risk_allowed_direction self of
                               None \<Rightarrow> False
                             | Some d \<Rightarrow>
                                 ((0 < sz_sign \<and> d \<noteq> long) \<or> (sz_sign < 0 \<and> d \<noteq> short))
                                 \<and> (position_size self = 0 \<or> sign self = sz_sign))
                    then Inr self
                    else
                      (case cap_size self sz sz_sign of
                         None \<Rightarrow> Inr self
                       | Some sz \<Rightarrow>
                           if (case risk_max_intraday_filled_orders self of
                                 None \<Rightarrow> False
                               | Some n \<Rightarrow> n \<le> risk_intraday_filled_orders self)
                           then Inr self
                           else
                             bind_err (size_round (size_round_factor e) sz) (\<lambda>sz.
                               if sz = 0 then Inr self
                               else
                                 bind_err
                                   (case limit of
                                      None \<Rightarrow> Inr PyNone
                                    | Some x \<Rightarrow> price_round (mintick e) (Num x) direction_sign)
                                   (\<lambda>limit.
                                      bind_err
                                        (case stop of
                                           None \<Rightarrow> Inr PyNone
                                         | Some x \<Rightarrow>
                                             price_round (mintick e) (Num x) (- direction_sign))
                                        (\<lambda>stop.
                                           let order = Order_init (Some order_id) sz
                                                 order_type_entry None limit stop oca_name
                                                 oca_type comment alert_message
                                                 PyNone PyNone None None None;
                                               (r, self) = alloc_order order self
                                           in Inr (self\<lparr>entry_orders :=
                                                AList.update order_id r (entry_orders self)\<rparr>)))))))"

text \<open>The variables that the nested function \<^verbatim>\<open>_exit\<close> of \<^verbatim>\<open>exit\<close> shares with it
  (\<^verbatim>\<open>nonlocal limit, stop, trail_price, from_entry, direction, size\<close>).\<close>

record exit_vars =
  x_limit :: pyfloat
  x_stop :: pyfloat
  x_trail_price :: pyfloat
  x_from_entry :: "string option"
  x_direction :: real
  x_size :: real

text \<open>The nested function \<^verbatim>\<open>_exit()\<close>.\<close>

definition exit_order ::
  "env \<Rightarrow> string \<Rightarrow> real option \<Rightarrow> real option \<Rightarrow> real option \<Rightarrow> real option \<Rightarrow> real option \<Rightarrow>
   real option \<Rightarrow> string option \<Rightarrow> string option \<Rightarrow> string option \<Rightarrow>
   exit_vars \<times> Position \<Rightarrow> error + exit_vars \<times> Position" where
  "exit_order e exit_id qty qty_percent profit loss trail_points trail_offset oca_name comment
     alert_message vs =
     (let v = fst vs; self = snd vs;
          sz = (case qty of
                  None \<Rightarrow> (case qty_percent of
                             Some pc \<Rightarrow> - x_size v * (pc * (1 / 100))
                           | None \<Rightarrow> - x_size v)
                | Some q \<Rightarrow> - x_direction v * q)
      in bind_err (size_round (size_round_factor e) sz) (\<lambda>sz.
           let v = v\<lparr>x_size := sz\<rparr>
           in if sz = 0 then Inr (v, self)
              else if x_limit v = NA \<and> x_stop v = NA \<and> x_trail_price v \<noteq> NA then Inr (v, self)
              else
                bind_err
                  (if x_limit v \<noteq> NA then price_round (mintick e) (x_limit v) (x_direction v)
                   else Inr (x_limit v))
                  (\<lambda>limit.
                     bind_err
                       (if x_stop v \<noteq> NA
                        then price_round (mintick e) (x_stop v) (- x_direction v)
                        else Inr (x_stop v))
                       (\<lambda>stop.
                          bind_err
                            (if x_trail_price v \<noteq> NA
                             then price_round (mintick e) (x_trail_price v) (x_direction v)
                             else Inr (x_trail_price v))
                            (\<lambda>trail_price.
                               let v = v\<lparr>x_limit := limit, x_stop := stop,
                                          x_trail_price := trail_price\<rparr>;
                                   order = Order_init (x_from_entry v) sz order_type_close
                                             (Some exit_id) limit stop oca_name None comment
                                             alert_message trail_price (of_na trail_offset)
                                             profit loss trail_points;
                                   (r, self) = alloc_order order self
                               in Inr (v, self\<lparr>exit_orders :=
                                            AList.update exit_id r (exit_orders self)\<rparr>))))))"

text \<open>The three loops of \<^verbatim>\<open>exit\<close>: over the open trades with the given entry id, over
  the pending entry orders, and over all open trades.\<close>

fun exit_trades_of ::
  "(exit_vars \<times> Position \<Rightarrow> error + exit_vars \<times> Position) \<Rightarrow> string \<Rightarrow> Trade list \<Rightarrow>
   exit_vars \<times> Position \<Rightarrow> error + exit_vars \<times> Position" where
  "exit_trades_of ex from_entry [] vs = Inr vs"
| "exit_trades_of ex from_entry (trade # trades) vs =
     bind_err
       (if t_entry_id trade = from_entry
        then ex ((fst vs)\<lparr>x_direction := t_sign trade, x_size := t_size trade\<rparr>, snd vs)
        else Inr vs)
       (exit_trades_of ex from_entry trades)"

fun exit_entry_orders ::
  "(exit_vars \<times> Position \<Rightarrow> error + exit_vars \<times> Position) \<Rightarrow> nat list \<Rightarrow>
   exit_vars \<times> Position \<Rightarrow> error + exit_vars \<times> Position" where
  "exit_entry_orders ex [] vs = Inr vs"
| "exit_entry_orders ex (r # rs) vs =
     bind_err
       (let order = order_store (snd vs) r
        in ex ((fst vs)\<lparr>x_direction := o_sign order, x_size := o_size order,
                        x_from_entry := o_order_id order\<rparr>, snd vs))
       (exit_entry_orders ex rs)"

fun exit_all_trades ::
  "(exit_vars \<times> Position \<Rightarrow> error + exit_vars \<times> Position) \<Rightarrow> Trade list \<Rightarrow>
   exit_vars \<times> Position \<Rightarrow> error + exit_vars \<times> Position" where
  "exit_all_trades ex [] vs = Inr vs"
| "exit_all_trades ex (trade # trades) vs =
     bind_err
       (ex ((fst vs)\<lparr>x_direction := t_sign trade, x_size := t_size trade,
                     x_from_entry := Some (t_entry_id trade)\<rparr>, snd vs))
       (exit_all_trades ex trades)"

text \<open>\<^verbatim>\<open>exit(id, from_entry, qty, qty_percent, profit, limit, loss, stop, trail_price,
  trail_points, trail_offset, oca_name, comment, ..., alert_message, ...)\<close>; the arguments
  that the function never reads are left out.\<close>

definition exit ::
  "env \<Rightarrow> string \<Rightarrow> string \<Rightarrow> real option \<Rightarrow> real option \<Rightarrow> real option \<Rightarrow> real option \<Rightarrow>
   real option \<Rightarrow> real option \<Rightarrow> real option \<Rightarrow> real option \<Rightarrow> real option \<Rightarrow>
   string option \<Rightarrow> string option \<Rightarrow> string option \<Rightarrow> Position \<Rightarrow> error + Position" where
  "exit e exit_id from_entry qty qty_percent profit limit loss stop trail_price trail_points
     trail_offset oca_name comment alert_message self =
     (if lib_semaphore e then Inr self
      else if (case qty of None \<Rightarrow> False | Some q \<Rightarrow> q < 0) then Inr self
      else
        let v = \<lparr>x_limit = of_na limit, x_stop = of_na stop, x_trail_price = of_na trail_price,
                 x_from_entry = Some from_entry, x_direction = 0, x_size = 0\<rparr>;
            ex = exit_order e exit_id qty qty_percent profit loss trail_points trail_offset
                   oca_name comment alert_message
        in bind_err
             (if from_entry \<noteq> []
              then (case map_of (entry_orders self) from_entry of
                      None \<Rightarrow> exit_trades_of ex from_entry (open_trades self) (v, self)
                    | Some r \<Rightarrow>
                        ex (v\<lparr>x_direction := o_sign (order_store self r),
                              x_size := o_size (order_store self r)\<rparr>, self))
              else
                bind_err (exit_entry_orders ex (map snd (entry_orders self)) (v, self)) (\<lambda>vs.
                  if x_direction (fst vs) = 0
                  then exit_all_trades ex (open_trades (snd vs)) vs
                  else Inr vs))
             (\<lambda>vs. Inr (snd vs)))"

subsection \<open>Runs of the ledger\<close>

text \<open>
  What can happen to a ledger: the calls of the strategy API, a fill of an order that
  the caller has just created, the bar processor, and the writes of the collaborators
  that are not among the sources (the script host sets \<^verbatim>\<open>prev_c\<close>, the risk module sets
  the risk fields). Every step comes with the environment it runs in.
\<close>

datatype op =
    Entry string direction "real option" "real option" "real option"
      "string option" "string option" "string option" "string option"
  | Exit string string "real option" "real option" "real option" "real option" "real option"
      "real option" "real option" "real option" "real option"
      "string option" "string option" "string option"
  | Close string "string option" "real option" "real option" "string option" bool
  | Close_all "string option" "string option" bool
  | Cancel string
  | Cancel_all
  | Fill_order Order real real real
  | Process_orders
  | Host real "direction option" "int option" "real option" int bool

fun apply_op :: "env \<Rightarrow> op \<Rightarrow> Position \<Rightarrow> error + Position" where
  "apply_op e (Entry order_id dir qty limit stop oca_name oca_type comment alert_message) self =
     entry e order_id dir qty limit stop oca_name oca_type comment alert_message self"
| "apply_op e (Exit exit_id from_entry qty qty_percent profit limit loss stop trail_price
       trail_points trail_offset oca_name comment alert_message) self =
     exit e exit_id from_entry qty qty_percent profit limit loss stop trail_price trail_points
       trail_offset oca_name comment alert_message self"
| "apply_op e (Close order_id comment qty qty_percent alert_message immediately) self =
     close e order_id comment qty qty_percent alert_message immediately self"
| "apply_op e (Close_all comment alert_message immediately) self =
     close_all e comment alert_message immediately self"
| "apply_op e (Cancel order_id) self = Inr (cancel e order_id self)"
| "apply_op e Cancel_all self = Inr (cancel_all e self)"
| "apply_op e (Fill_order order price h l) self =
     (let (r, self) = alloc_order order self
      in bind_err (fill_order e r price h l self) (\<lambda>res. Inr (snd res)))"
| "apply_op e Process_orders self = process_orders e self"
| "apply_op e (Host c allowed max_filled max_size filled halt) self =
     Inr (self\<lparr>prev_c := c, risk_allowed_direction := allowed,
               risk_max_intraday_filled_orders := max_filled,
               risk_max_position_size := max_size,
               risk_intraday_filled_orders := filled, risk_halt_trading := halt\<rparr>)"

fun run :: "(env \<times> op) list \<Rightarrow> Position \<Rightarrow> error + Position" where
  "run [] self = Inr self"
| "run (step # steps) self = bind_err (apply_op (fst step) (snd step) self) (run steps)"

subsection \<open>Scenarios\<close>

text \<open>The environment of the specification's scenarios (initial capital 10000, tick
  size 0.01, point value 1, size factor \<open>1e8\<close>) with a commission model, and the orders
  that \<^verbatim>\<open>entry\<close> and \<^verbatim>\<open>close\<close> build for a market order.\<close>

definition scenario_env :: "commission \<Rightarrow> real \<Rightarrow> env" where
  "scenario_env ctype cvalue =
     \<lparr>lib_open = 100, lib_high = 101, lib_low = 99, lib_close = 100, bar_index = 0,
      lib_time = 0, lib_semaphore = False, round_to_mintick = (\<lambda>x. x), mintick = 1 / 100,
      pointvalue = 1, size_round_factor = 100000000, initial_capital = 10000,
      commission_type = ctype, commission_value = cvalue, slippage = 0, pyramiding = 1,
      margin_long = 1, margin_short = 1, default_qty_type = fixed, default_qty_value = 1\<rparr>"

definition entry_order :: "string \<Rightarrow> real \<Rightarrow> Order" where
  "entry_order order_id sz =
     Order_init (Some order_id) sz order_type_entry None PyNone PyNone None None None None
       PyNone PyNone None None None"

definition close_order :: "string option \<Rightarrow> string \<Rightarrow> real \<Rightarrow> Order" where
  "close_order order_id exit_id sz =
     Order_init order_id sz order_type_close (Some exit_id) PyNone PyNone None None None None
       PyNone PyNone None None None"

text \<open>The closed trades that the ring still holds, oldest first.\<close>

definition closed_trade_list :: "Position \<Rightarrow> Trade list" where
  "closed_trade_list self = map (trade_store self) (closed_trades self)"

text \<open>A ledger that holds one long trade of 5 contracts entered as \<^verbatim>\<open>L\<close> at 100, and a
  pending market order to close the entry \<^verbatim>\<open>S\<close>, which no open trade has.\<close>

definition long_five :: Position where
  "long_five = new_position
     \<lparr>open_trades := [Trade_init 5 ''L'' 0 0 100 0 None 10000],
      position_size := 5, sign := 1, avg_price := 100, entry_summ := 500,
      exit_orders := [(''x'', 0)],
      order_store := (\<lambda>_. blank_order)(0 := close_order (Some ''S'') ''x'' (- 5)),
      next_order := 1\<rparr>"

section \<open>Properties\<close>

subsection \<open>Sequencing\<close>

lemma bind_err_Inr [simp]: "bind_err (Inr x) f = f x"
  by (simp add: bind_err_def)

lemma bind_err_Inl [simp]: "bind_err (Inl x) f = Inl x"
  by (simp add: bind_err_def)

lemma bind_err_eq_Inr: "bind_err m f = Inr y \<longleftrightarrow> (\<exists>x. m = Inr x \<and> f x = Inr y)"
  by (cases m) simp_all

lemma bind_err_weak_cong: "m = m' \<Longrightarrow> bind_err m f = bind_err m' f"
  by simp

text \<open>The definitions that an evaluation of a fill unfolds. The congruence rule keeps
  the simplifier out of a continuation until the computation before it has a result.\<close>

lemmas fill_defs = alloc_order_def fill_order_def fill_order_impl_def open_trade_def
     close_position_def close_trade_def split_trade_def add_drawdown_runup_def set_exit_def realize_def
     modify_sizes_def count_and_average_def keep_or_drop_def deque_append_def
     entry_order_def close_order_def Order_init_def Trade_init_def isclose_zero_def
     sign_of_def equity_def Let_def blank_trade_def new_position_def scenario_env_def
     closed_trade_list_def

text \<open>The definitions that an evaluation of a bar, or of a call of \<^verbatim>\<open>close\<close> or
  \<^verbatim>\<open>close_all\<close>, unfolds besides.\<close>

lemmas bar_defs = process_orders_def first_round_def second_round_def resolve_ticks_def
     check_high_stop_def check_high_def trail_high_def check_low_stop_def check_low_def
     trail_low_def check_close_def mark_open_trades_def mark_trade_def update_extremes_def
     cumulate_def close_def close_all_def size_round_def round_half_even_def
     set_tick_prices_def of_na_def


subsection \<open>Rounding\<close>















text \<open>
  C6. The specification's formula truncates at the second step and so never returns
  more than \<open>\<bar>qty\<bar>\<close>; the code rounds there to the nearest integer, ties to even. At a
  lot step of 1, a quantity of 1.57 is floored to 1.5 and then rounded up to 2.
\<close>

theorem size_round_exceeds_quantity:
  "size_round 1 (157 / 100) = Inr 2
   \<and> size_round_spec 1 (157 / 100) = 1
   \<and> \<bar>157 / 100 :: real\<bar> < \<bar>2\<bar>"
  by (simp add: size_round_def size_round_spec_def round_half_even_def py_int_def Let_def)

subsection \<open>The strategy API and the closing walk\<close>

text \<open>
  C9. A call of \<^verbatim>\<open>entry\<close>, \<^verbatim>\<open>exit\<close> or \<^verbatim>\<open>close\<close> with a negative quantity returns
  without raising and leaves the whole ledger as it was: pending orders, open and closed
  trades, counters and running sums.
\<close>

theorem negative_qty_is_dropped:
  assumes "q < 0"
  shows "entry e order_id dir (Some q) limit stop oca_name oca_type comment alert_message self
           = Inr self
       \<and> exit e exit_id from_entry (Some q) qty_percent profit limit loss stop trail_price
           trail_points trail_offset oca_name comment alert_message self = Inr self
       \<and> close e order_id comment (Some q) qty_percent alert_message immediately self
           = Inr self"
  using assms by (simp add: entry_def exit_def close_def)

theorem negative_qty_is_dropped_witness:
  "(- 1 :: real) < 0
   \<and> entry (scenario_env percent 0) ''L'' long (Some (- 1)) None None None None None None
       new_position = Inr new_position
   \<and> exit (scenario_env percent 0) ''x'' ''L'' (Some (- 1)) None None None None None None None
       None None None None new_position = Inr new_position
   \<and> close (scenario_env percent 0) ''L'' None (Some (- 1)) None None False new_position
       = Inr new_position"
proof -
  have h: "(- 1 :: real) < 0" by simp
  show ?thesis
    using negative_qty_is_dropped [OF h, of "scenario_env percent 0" "''L''" long None None
        None None None None new_position "''x''" "''L''" None None None None None None False]
    by simp
qed

lemma close_walk_unmatched:
  assumes "o_order_id (order_store (f_self f) r) = Some order_id"
    and "\<forall>trade \<in> set trades. t_entry_id trade \<noteq> order_id"
  shows "close_walk e r price h l trades f = Inr (f\<lparr>f_open_trades := f_open_trades f @ trades\<rparr>)"
  using assms
proof (induction trades arbitrary: f)
  case Nil
  then show ?case by simp
next
  case (Cons trade trades)
  have step: "close_trade e r price h l trade f
      = Inr (f\<lparr>f_open_trades := f_open_trades f @ [trade]\<rparr>)"
    using Cons.prems by (simp add: close_trade_def)
  show ?case
    using Cons.IH [of "f\<lparr>f_open_trades := f_open_trades f @ [trade]\<rparr>"] Cons.prems
    by (simp add: step)
qed

text \<open>
  C10. When the position is open and a Close order of the other sign carries an order id
  that is the entry id of no open trade, \<^verbatim>\<open>_fill_order\<close> returns the ledger unchanged in
  every field; in particular the order is still in \<^verbatim>\<open>exit_orders\<close> afterwards.
\<close>

theorem unmatched_close_changes_nothing:
  assumes "position_size self \<noteq> 0" and "open_trades self \<noteq> []"
    and "o_order_type (order_store self r) = order_type_close"
    and "o_sign (order_store self r) \<noteq> sign self"
    and "o_order_id (order_store self r) = Some order_id"
    and "\<forall>trade \<in> set (open_trades self). t_entry_id trade \<noteq> order_id"
  shows "fill_order_impl e r price h l self = Inr self"
proof -
  let ?f = "\<lparr>f_self = self, f_delete = False, f_open_trades = [], f_new_closed_trades = [],
           f_closed_trade_size = 0, f_trade = blank_trade, f_closed_trade = blank_trade,
           f_size = 0, f_pnl = 0\<rparr>"
  have "close_walk e r price h l (open_trades self) ?f
      = Inr (?f\<lparr>f_open_trades := f_open_trades ?f @ open_trades self\<rparr>)"
    by (rule close_walk_unmatched [where order_id = order_id]) (use assms in simp_all)
  then have "close_position e r price h l self = Inr self"
    by (simp add: close_position_def)
  then show ?thesis
    using assms by (simp add: fill_order_impl_def)
qed

theorem unmatched_close_changes_nothing_witness:
  "position_size long_five \<noteq> 0 \<and> open_trades long_five \<noteq> []
   \<and> o_order_type (order_store long_five 0) = order_type_close
   \<and> o_sign (order_store long_five 0) \<noteq> sign long_five
   \<and> o_order_id (order_store long_five 0) = Some ''S''
   \<and> map t_entry_id (open_trades long_five) = [''L'']
   \<and> fill_order_impl (scenario_env percent 0) 0 110 110 110 long_five = Inr long_five
   \<and> exit_orders long_five = [(''x'', 0)]"
proof -
  have 1: "position_size long_five \<noteq> 0" by (simp add: long_five_def)
  have 2: "open_trades long_five \<noteq> []" by (simp add: long_five_def)
  have 3: "o_order_type (order_store long_five 0) = order_type_close"
    by (simp add: long_five_def close_order_def Order_init_def)
  have 4: "o_sign (order_store long_five 0) \<noteq> sign long_five"
    by (simp add: long_five_def close_order_def Order_init_def sign_of_def)
  have 5: "o_order_id (order_store long_five 0) = Some ''S''"
    by (simp add: long_five_def close_order_def Order_init_def)
  have 6: "\<forall>trade \<in> set (open_trades long_five). t_entry_id trade \<noteq> ''S''"
    by (simp add: long_five_def Trade_init_def)
  have 7: "exit_orders long_five = [(''x'', 0)]" by (simp add: long_five_def)
  have 8: "map t_entry_id (open_trades long_five) = [''L'']"
    by (simp add: long_five_def Trade_init_def)
  show ?thesis
    using unmatched_close_changes_nothing [OF 1 2 3 4 5 6, of "scenario_env percent 0" 110 110 110]
      1 2 3 4 5 7 8 by simp
qed


subsection \<open>Scenarios of the specification\<close>

text \<open>
  C8. With no commission, entering long 10 contracts at 100 and then filling a Close
  order of 4 contracts at 105 leaves one open trade of size 6, records one closed trade
  of size 4 with profit 20, and leaves \<open>entry_summ = 600\<close> and \<open>avg_price = 100\<close>, whatever
  the highs and lows passed to the two fills.
\<close>

theorem partial_close_scenario:
  "\<exists>self. run [(scenario_env percent 0, Fill_order (entry_order ''L'' 10) 100 h1 l1),
              (scenario_env percent 0, Fill_order (close_order (Some ''L'') ''x'' (- 4)) 105 h2 l2)]
             new_position = Inr self
     \<and> map t_size (open_trades self) = [6]
     \<and> map t_entry_id (open_trades self) = [''L'']
     \<and> map t_size (closed_trade_list self) = [4]
     \<and> map t_profit (closed_trade_list self) = [20]
     \<and> closed_trades_count self = 1
     \<and> position_size self = 6
     \<and> entry_summ self = 600 \<and> avg_price self = 100"
  by (simp add: fill_defs cong: bind_err_weak_cong let_weak_cong)

text \<open>
  C7. With a percent commission of 0.1, a long entry of 10 contracts at 100 debits 1.0
  (the net profit is -1.0 and the trade carries a commission of 1.0); closing it whole
  at 110 adds an exit commission of 1.1 to the closed trade, whose commission is then
  2.1, and leaves a net profit of \<open>10 * 10 - 2.1 = 97.9\<close>.
\<close>

theorem percent_commission_scenario:
  "\<exists>self1 self2.
       run [(scenario_env percent (1 / 10), Fill_order (entry_order ''L'' 10) 100 h1 l1)]
         new_position = Inr self1
     \<and> netprofit self1 = - 1
     \<and> map t_commission (open_trades self1) = [1]
     \<and> run [(scenario_env percent (1 / 10),
              Fill_order (close_order (Some ''L'') ''x'' (- 10)) 110 h2 l2)] self1 = Inr self2
     \<and> open_trades self2 = []
     \<and> map t_size (closed_trade_list self2) = [10]
     \<and> map t_commission (closed_trade_list self2) = [1 + 11 / 10]
     \<and> map t_profit (closed_trade_list self2) = [979 / 10]
     \<and> netprofit self2 = 10 * 10 - 21 / 10
     \<and> netprofit self2 = 979 / 10"
  by (simp add: fill_defs cong: bind_err_weak_cong let_weak_cong)

text \<open>
  C3. From a long position of 5 contracts entered at 100, filling an Entry order of -8
  at 110 should close the 5 contracts with a profit of 50 and open 3 short at 110. The
  code zeroes the new size of -3 at line 572, takes no reversal branch, and opens a
  second trade of -8 beside the long one: no trade is closed, and the average price is
  \<open>1380 / 3 = 460\<close>.
\<close>

theorem reversal_entry_opens_second_trade:
  "\<exists>self. run [(scenario_env percent 0, Fill_order (entry_order ''L'' 5) 100 100 100),
              (scenario_env percent 0, Fill_order (entry_order ''S'' (- 8)) 110 110 110)]
             new_position = Inr self
     \<and> closed_trades self = []
     \<and> map t_size (open_trades self) = [5, - 8]
     \<and> position_size self = - 3
     \<and> entry_summ self = 1380 \<and> avg_price self = 460"
  by (simp add: fill_defs cong: bind_err_weak_cong let_weak_cong)

text \<open>
  C2. A Close order of -8 against a long position of 5 should be clamped to -5 before it
  is filled. For the same reason as in C3 the clamp is not reached: the fill runs with a
  size of -8, closes the 5 contracts and leaves the order (reference 1) with a size of -3
  instead of 0. The position does not reverse.
\<close>

theorem reversing_close_is_not_clamped:
  "\<exists>self. run [(scenario_env percent 0, Fill_order (entry_order ''L'' 5) 100 100 100),
              (scenario_env percent 0, Fill_order (close_order None ''x'' (- 8)) 110 110 110)]
             new_position = Inr self
     \<and> position_size self = 0
     \<and> map t_size (closed_trade_list self) = [5]
     \<and> o_size (order_store self 1) = - 3"
  by (simp add: fill_defs cong: bind_err_weak_cong let_weak_cong)

text \<open>
  C4. A market order should be gone from the pending orders when \<^verbatim>\<open>process_orders\<close>
  returns (the code says so itself after the first loop: "Here all market orders should
  be gone"). A market Close order is removed only by the walk over the open trades, when
  it closes a trade. So it stays in \<^verbatim>\<open>exit_orders\<close>, with \<^verbatim>\<open>is_market_order\<close> set, after
  the bar that processed it in both of these runs: \<^verbatim>\<open>close('S')\<close> against a long position
  whose only trade was entered as \<^verbatim>\<open>L\<close>; and \<^verbatim>\<open>close('L')\<close> followed by \<^verbatim>\<open>close_all()\<close>,
  where the first order closes the position and the second one meets a flat position.
\<close>

theorem market_close_order_persists:
  "(\<exists>self. run [(scenario_env percent 0, Fill_order (entry_order ''L'' 5) 100 100 100),
               (scenario_env percent 0, Close ''S'' None None None None False),
               (scenario_env percent 0, Process_orders)] new_position = Inr self
      \<and> position_size self = 5
      \<and> map fst (exit_orders self) = [''Close entry(s) order S'']
      \<and> map (\<lambda>kr. o_is_market_order (order_store self (snd kr))) (exit_orders self) = [True])
   \<and> (\<exists>self. run [(scenario_env percent 0, Fill_order (entry_order ''L'' 5) 100 100 100),
               (scenario_env percent 0, Close ''L'' None None None None False),
               (scenario_env percent 0, Close_all None None False),
               (scenario_env percent 0, Process_orders)] new_position = Inr self
      \<and> position_size self = 0
      \<and> map fst (exit_orders self) = [''Close position order'']
      \<and> map (\<lambda>kr. o_is_market_order (order_store self (snd kr))) (exit_orders self) = [True])"
  by (simp add: fill_defs bar_defs cong: bind_err_weak_cong let_weak_cong)


end
